theory Spec2Isabelle
  imports Complex_Main "HOL-Library.List_Lexorder" "HOL-Library.Char_ord" "HOL-Library.Log_Nat"
    "HOL-Library.Multiset"
begin

section \<open>Data model\<close>

text \<open>
  The programs work on pandas data frames. A frame is modelled as the list of its rows, in
  row order; a column that the source selects by a literal name is a field of the row
  record. A number of a numeric column is modelled by the rational it denotes; the missing
  value NaN inside a numeric column is not modelled. A missing entry of a label column is
  \<open>None\<close>.
\<close>

datatype error = KeyError | TypeError | ValueError | ZeroDivisionError

record fact_row =
  STATEFIP :: int
  EDUC :: int
  AGE :: rat
  INCTOT :: rat
  PERWT :: rat
  CINETHH :: int
  CISMRTPHN :: int

section \<open>Binary floating point\<close>

text \<open>
  Percentages are Python floats (IEEE 754 binary64). A float is modelled by the rational it
  denotes, and each division and multiplication of the source rounds its exact result to the
  nearest float, ties to the even significand: \<open>float64 x\<close> is the nearest multiple of
  \<open>2 ^ (e - 52)\<close>, where \<open>2 ^ e \<le> |x| < 2 ^ (e + 1)\<close> and \<open>e\<close> is at least -1022 (below that the
  floats are subnormal). Overflow to infinity, beyond \<open>2 ^ 1024\<close>, is outside the model. The
  sum of a weight column is taken exactly, as it is for whole-number person weights whose
  sums stay below \<open>2 ^ 53\<close>.
\<close>

text \<open>\<open>pow2 e\<close> is 2 to the integer power \<open>e\<close>; \<open>ilog2 x\<close> is the binary exponent of \<open>x \<noteq> 0\<close>.\<close>

definition pow2 :: "int \<Rightarrow> rat" where
  "pow2 e = (if 0 \<le> e then 2 ^ nat e else 1 / 2 ^ nat (- e))"

definition ilog2 :: "rat \<Rightarrow> int" where
  "ilog2 x =
     (let (p, q) = quotient_of x;
          d = bitlen \<bar>p\<bar> - bitlen q
      in if pow2 d \<le> \<bar>x\<bar> then d else d - 1)"

definition round_half_even :: "rat \<Rightarrow> int" where
  "round_half_even y =
     (let f = \<lfloor>y\<rfloor>;
          r = y - of_int f
      in if r < 1 / 2 then f
         else if 1 / 2 < r then f + 1
         else if even f then f else f + 1)"

definition float64 :: "rat \<Rightarrow> rat" where
  "float64 x =
     (if x = 0 then 0
      else
        (let e = max (ilog2 x) (- 1022);
             ulp = pow2 (e - 52)
         in of_int (round_half_even (x / ulp)) * ulp))"

text \<open>The float quotient and the float product of two floats (the divisor is not zero).\<close>

definition float_div :: "rat \<Rightarrow> rat \<Rightarrow> rat" where
  "float_div a b = float64 (a / b)"

definition float_mul :: "rat \<Rightarrow> rat \<Rightarrow> rat" where
  "float_mul a b = float64 (a * b)"

section \<open>analysis/analyze_weighted_stats.py: TechnologyAccessAnalyzer\<close>

text \<open>\<open>load_data\<close>: the two sentinel filters (9 means "not reported").\<close>

definition valid_internet :: "fact_row list \<Rightarrow> fact_row list" where
  "valid_internet fact_df = filter (\<lambda>r. CINETHH r \<noteq> 9) fact_df"

definition valid_smartphone :: "fact_row list \<Rightarrow> fact_row list" where
  "valid_smartphone fact_df = filter (\<lambda>r. CISMRTPHN r \<noteq> 9) fact_df"

text \<open>
  \<open>calculate_weighted_percentage(df, weight_col, condition_col, condition_value=1)\<close>.
  The two column names become the two selector functions. The result is
  \<open>condition_weight / total_weight * 100\<close> in floats: the quotient is rounded, then the product.
\<close>

definition calculate_weighted_percentage ::
  "'r list \<Rightarrow> ('r \<Rightarrow> rat) \<Rightarrow> ('r \<Rightarrow> int) \<Rightarrow> int \<Rightarrow> rat" where
  "calculate_weighted_percentage df weight_col condition_col condition_value =
     (let total_weight = sum_list (map weight_col df) in
      if total_weight = 0 then 0
      else
        (let condition_weight =
               sum_list (map weight_col (filter (\<lambda>r. condition_col r = condition_value) df))
         in float_mul (float_div condition_weight total_weight) 100))"

text \<open>
  \<open>pd.merge(left, dim, on=key, how='left')\<close>: every left row is kept, in the order of the
  left frame; a left row with several matching dimension rows is repeated once per match,
  a left row with none gets a missing label.
\<close>

definition merge_left :: "('s \<Rightarrow> 'k) \<Rightarrow> 's list \<Rightarrow> ('k \<times> string) list \<Rightarrow> ('s \<times> string option) list" where
  "merge_left key stats dim_table =
     concat (map (\<lambda>s. case filter (\<lambda>d. fst d = key s) dim_table of
                            [] \<Rightarrow> [(s, None)]
                          | ms \<Rightarrow> map (\<lambda>d. (s, Some (snd d))) ms) stats)"

text \<open>
  \<open>df.sort_values(col, ascending=False)\<close>. pandas reverses the column, sorts it ascending
  and reverses the permutation. The ascending sort is modelled by the stable insertion
  sort \<open>sort_key\<close>; pandas' default algorithm (quicksort) promises no particular order
  among equal keys for long inputs.
\<close>

definition sort_values_desc :: "('a \<Rightarrow> 'k::linorder) \<Rightarrow> 'a list \<Rightarrow> 'a list" where
  "sort_values_desc col df = rev (sort_key col (rev df))"

record stat_row =
  stat_code :: int
  internet_percentage :: rat
  smartphone_percentage :: rat
  population_estimate :: rat

text \<open>
  The body of the loop of \<open>analyze_by_state\<close> and of \<open>analyze_by_education\<close>: the rows of
  the two filtered frames that carry the code, the guard on both being non-empty, and the
  record appended to the statistics.
\<close>

definition code_stats :: "(fact_row \<Rightarrow> int) \<Rightarrow> fact_row list \<Rightarrow> int \<Rightarrow> stat_row list" where
  "code_stats col fact_df c =
     (let code_internet = filter (\<lambda>r. col r = c) (valid_internet fact_df);
          code_smartphone = filter (\<lambda>r. col r = c) (valid_smartphone fact_df)
      in if length code_internet > 0 \<and> length code_smartphone > 0 then
           [\<lparr> stat_code = c,
              internet_percentage = calculate_weighted_percentage code_internet PERWT CINETHH 1,
              smartphone_percentage = calculate_weighted_percentage code_smartphone PERWT CISMRTPHN 1,
              population_estimate = sum_list (map PERWT code_internet) \<rparr>]
         else [])"

text \<open>
  The tail of both functions: \<open>pd.DataFrame(stats)\<close>, the left merge with the dimension
  table on the code column and the descending sort. A frame built from an empty list has
  no columns, so the merge on the code column raises \<open>KeyError\<close>.
\<close>

definition merge_and_sort :: "stat_row list \<Rightarrow> (int \<times> string) list \<Rightarrow> error + (stat_row \<times> string option) list" where
  "merge_and_sort stats dim_table =
     (if stats = [] then Inl KeyError
      else Inr (sort_values_desc (\<lambda>p. internet_percentage (fst p)) (merge_left stat_code stats dim_table)))"

text \<open>
  \<open>analyze_by_state\<close> walks the codes in the order of the dimension table,
  \<open>analyze_by_education\<close> in ascending order (\<open>sorted(self.educ_dim['EDUC'])\<close>). A dimension
  table is the list of its (code, label) rows.
\<close>

definition analyze_by_state :: "fact_row list \<Rightarrow> (int \<times> string) list \<Rightarrow> error + (stat_row \<times> string option) list" where
  "analyze_by_state fact_df state_dim =
     merge_and_sort (concat (map (code_stats STATEFIP fact_df) (map fst state_dim))) state_dim"

definition analyze_by_education :: "fact_row list \<Rightarrow> (int \<times> string) list \<Rightarrow> error + (stat_row \<times> string option) list" where
  "analyze_by_education fact_df educ_dim =
     merge_and_sort (concat (map (code_stats EDUC fact_df) (sort (map fst educ_dim)))) educ_dim"

text \<open>The codes for which a result holds a record; none when the analysis raised.\<close>

definition emitted_codes :: "error + (stat_row \<times> string option) list \<Rightarrow> int set" where
  "emitted_codes res = (case res of Inl e \<Rightarrow> {} | Inr rows \<Rightarrow> set (map (\<lambda>p. stat_code (fst p)) rows))"

section \<open>analyze_weighted_stats.py: vectorised statistics\<close>

text \<open>
  \<open>np.average(a, weights=w)\<close>: numpy raises \<open>ZeroDivisionError\<close> when the weights sum to
  zero. The values \<open>a\<close> are the booleans \<open>x == 1\<close>, counted as 1 and 0. The average is the
  float quotient of the weighted sum by the sum of the weights.
\<close>

definition np_average :: "bool list \<Rightarrow> rat list \<Rightarrow> error + rat" where
  "np_average a weights =
     (let scl = sum_list weights in
      if scl = 0 then Inl ZeroDivisionError
      else Inr (float_div (sum_list (map (\<lambda>(b, w). (if b then 1 else 0) * w) (zip a weights))) scl))"

record 'g access_row =
  dimension_value :: 'g
  access_population :: rat
  access_percentage :: rat

text \<open>
  \<open>groupby(group_col)\<close>: one group per distinct key, in ascending key order; rows whose key
  is missing belong to no group. The group column is a selector that returns \<open>None\<close> for a
  missing key (the bucket columns can hold missing values).
\<close>

definition group_keys :: "('r \<Rightarrow> 'g option) \<Rightarrow> 'r list \<Rightarrow> ('g::linorder) list" where
  "group_keys group_col df = sort (remdups (List.map_filter group_col df))"

definition group_rows :: "('r \<Rightarrow> 'g option) \<Rightarrow> 'r list \<Rightarrow> 'g \<Rightarrow> 'r list" where
  "group_rows group_col df g = filter (\<lambda>r. group_col r = Some g) df"

text \<open>
  The aggregation of one group, with the later \<open>grouped_stats['internet_percentage'] *= 100\<close>
  as a float product; an exception of the lambda aborts the whole call.
\<close>

definition agg_group :: "('r \<Rightarrow> rat) \<Rightarrow> ('r \<Rightarrow> int) \<Rightarrow> 'r list \<Rightarrow> 'g \<Rightarrow> error + 'g access_row" where
  "agg_group weight_col access_col rows g =
     (case np_average (map (\<lambda>r. access_col r = 1) rows) (map weight_col rows) of
        Inl e \<Rightarrow> Inl e
      | Inr avg \<Rightarrow> Inr \<lparr> dimension_value = g,
                         access_population = sum_list (map weight_col rows),
                         access_percentage = float_mul avg 100 \<rparr>)"

fun collect :: "(error + 'a) list \<Rightarrow> error + 'a list" where
  "collect [] = Inr []"
| "collect (Inl e # rs) = Inl e"
| "collect (Inr x # rs) = (case collect rs of Inl e \<Rightarrow> Inl e | Inr xs \<Rightarrow> Inr (x # xs))"

text \<open>
  \<open>calculate_weighted_access_stats(data_frame, group_col, weight_col, access_col)\<close>. The
  fields \<open>access_population\<close> and \<open>access_percentage\<close> are the columns that the source
  renames to \<open>population_estimate\<close> and \<open>internet_percentage\<close>.
\<close>

definition calculate_weighted_access_stats ::
  "'r list \<Rightarrow> ('r \<Rightarrow> ('g::linorder) option) \<Rightarrow> ('r \<Rightarrow> rat) \<Rightarrow> ('r \<Rightarrow> int) \<Rightarrow> error + 'g access_row list" where
  "calculate_weighted_access_stats data_frame group_col weight_col access_col =
     (case collect (map (\<lambda>g. agg_group weight_col access_col (group_rows group_col data_frame g) g)
                        (group_keys group_col data_frame)) of
        Inl e \<Rightarrow> Inl e
      | Inr grouped_stats \<Rightarrow> Inr (sort_values_desc access_percentage grouped_stats))"

text \<open>
  \<open>merge_dimension_descriptions(stats_df, dim_table, dim_name)\<close>. A dimension frame is the
  list of its column names together with its (code, label) rows; \<open>dim_name.upper()\<close> is
  modelled on ASCII letters.
\<close>

record 'g dim_frame =
  frame_columns :: "string list"
  frame_rows :: "('g \<times> string) list"

definition upper :: "string \<Rightarrow> string" where
  "upper s = map (\<lambda>c. if CHR ''a'' \<le> c \<and> c \<le> CHR ''z'' then char_of (of_char c - (32::nat)) else c) s"

definition merge_dimension_descriptions ::
  "'g access_row list \<Rightarrow> 'g dim_frame \<Rightarrow> string \<Rightarrow> error + ('g access_row \<times> string option) list" where
  "merge_dimension_descriptions stats_df dim_table dim_name =
     (if dim_name \<notin> set [''AGE_BUCKET'', ''INCTOT_BUCKET''] then
        (let dim_col = upper dim_name;
             value_col = dim_col @ ''_value''
         in if value_col \<in> set (frame_columns dim_table) then
              (if dim_col \<in> set (frame_columns dim_table)
               then Inr (merge_left dimension_value stats_df (frame_rows dim_table))
               else Inl KeyError)
            else Inr (map (\<lambda>s. (s, None)) stats_df))
      else Inr (map (\<lambda>s. (s, None)) stats_df))"

section \<open>Bucketizers\<close>

subsection \<open>pandas cut and qcut\<close>

text \<open>Bin edges; the fallback bands of the income buckets use both infinities.\<close>

datatype edge = NegInf | Fin rat | PosInf

fun edge_less :: "edge \<Rightarrow> edge \<Rightarrow> bool" where
  "edge_less NegInf NegInf = False"
| "edge_less NegInf b = True"
| "edge_less (Fin a) (Fin b) = (a < b)"
| "edge_less (Fin a) PosInf = True"
| "edge_less (Fin a) NegInf = False"
| "edge_less PosInf b = False"

text \<open>
  The label of one value: \<open>searchsorted(bins, x, side='left')\<close> counts the edges below \<open>x\<close>, so
  bin \<open>i\<close> is the right-closed interval from edge \<open>i - 1\<close> to edge \<open>i\<close>; with \<open>include_lowest\<close>
  a value equal to the first edge goes to bin 1; a value at or below the first edge
  otherwise, or above the last edge, gets the missing value.
\<close>

definition cut_label :: "bool \<Rightarrow> edge list \<Rightarrow> string list \<Rightarrow> rat \<Rightarrow> string option" where
  "cut_label include_lowest bins labels x =
     (let i = length (takeWhile (\<lambda>b. edge_less b (Fin x)) bins);
          ids = (case bins of [] \<Rightarrow> i | b0 # bs \<Rightarrow> if include_lowest \<and> b0 = Fin x then 1 else i)
      in if ids = length bins \<or> ids = 0 then None else Some (labels ! (ids - 1)))"

text \<open>
  \<open>_bins_to_cuts\<close>: duplicate edges are dropped or refused (unless there are exactly two
  edges), then the labels must be distinct and one fewer than the edges, else \<open>ValueError\<close>.
\<close>

definition bins_to_cuts :: "bool \<Rightarrow> bool \<Rightarrow> edge list \<Rightarrow> string list \<Rightarrow> rat list \<Rightarrow> error + string option list" where
  "bins_to_cuts include_lowest drop_duplicates bins labels xs =
     (let unique_bins = remdups bins;
          has_duplicates = (length unique_bins < length bins \<and> length bins \<noteq> 2)
      in if has_duplicates \<and> \<not> drop_duplicates then Inl ValueError
         else
           (let bins' = (if has_duplicates then unique_bins else bins)
            in if \<not> distinct labels then Inl ValueError
               else if length labels + 1 \<noteq> length bins' then Inl ValueError
               else Inr (map (cut_label include_lowest bins' labels) xs)))"

fun decreasing_step :: "edge list \<Rightarrow> bool" where
  "decreasing_step (a # b # bs) = (edge_less b a \<or> decreasing_step (b # bs))"
| "decreasing_step bs = False"

text \<open>\<open>pd.cut(x, bins=..., labels=...)\<close> with the defaults \<open>right=True, include_lowest=False\<close>.\<close>

definition pd_cut :: "rat list \<Rightarrow> edge list \<Rightarrow> string list \<Rightarrow> error + string option list" where
  "pd_cut xs bins labels =
     (if decreasing_step bins then Inl ValueError
      else bins_to_cuts False False bins labels xs)"

text \<open>
  The quantile of a sorted, non-empty list by linear interpolation between the two
  neighbouring order statistics (the default of \<open>Series.quantile\<close>).
\<close>

definition quantile_linear :: "rat list \<Rightarrow> rat \<Rightarrow> rat" where
  "quantile_linear s p =
     (let h = of_nat (length s - 1) * p;
          i = nat \<lfloor>h\<rfloor>;
          frac = h - of_nat i
      in if i + 1 < length s then s ! i + frac * (s ! (i + 1) - s ! i) else s ! i)"

text \<open>\<open>pd.qcut(x, q=q, labels=labels, duplicates='drop')\<close> on a non-empty series.\<close>

definition pd_qcut :: "rat list \<Rightarrow> nat \<Rightarrow> string list \<Rightarrow> error + string option list" where
  "pd_qcut xs q labels =
     (let s = sort xs;
          bins = map (\<lambda>k. Fin (quantile_linear s (of_nat k / of_nat q))) [0..<q + 1]
      in bins_to_cuts True True bins labels xs)"

subsection \<open>analyze_weighted_stats.py: age and income buckets\<close>

definition age_bins :: "rat list" where
  "age_bins = [0, 18, 25, 35, 50, 65, 100]"

definition age_labels :: "string list" where
  "age_labels = [''0-18'', ''19-25'', ''26-35'', ''36-50'', ''51-65'', ''65+'']"

definition age_buckets :: "rat list \<Rightarrow> error + string option list" where
  "age_buckets ages = pd_cut ages (map Fin age_bins) age_labels"

definition n_quantiles :: nat where
  "n_quantiles = 7"

definition quantile_labels :: "string list" where
  "quantile_labels = [''Very Low Income'', ''Low Income'', ''Lower Middle'', ''Middle'',
                      ''Upper Middle'', ''High'', ''Very High'']"

definition fallback_bins :: "edge list" where
  "fallback_bins = [NegInf, Fin 0, Fin 20000, Fin 40000, Fin 60000, Fin 100000, PosInf]"

definition fallback_labels :: "string list" where
  "fallback_labels = [''No Income'', ''Very Low'', ''Low'', ''Middle'', ''High'', ''Very High'']"

text \<open>
  The two masked assignments into \<open>result\<close>: rows with income zero get \<open>No Income\<close>, rows
  with positive income get their quantile bucket, taken in row order.
\<close>

fun assign_buckets :: "rat list \<Rightarrow> string option list \<Rightarrow> string option list" where
  "assign_buckets [] bs = []"
| "assign_buckets (x # xs) bs =
     (if x > 0 then (case bs of [] \<Rightarrow> None # assign_buckets xs [] | b # bs' \<Rightarrow> b # assign_buckets xs bs')
      else (if x = 0 then Some ''No Income'' else None) # assign_buckets xs bs)"

text \<open>
  \<open>create_income_buckets(income_data)\<close>. The body of the \<open>try\<close> is \<open>quantile_attempt\<close>; any
  exception in it leads to the fallback \<open>pd.cut\<close> on the clipped incomes. \<open>result\<close> is created
  as a categorical series without categories, and pandas refuses to store a value that is
  not among the categories of a categorical; the flag \<open>setitem_raises\<close> says whether the
  masked assignments raise for that reason (\<open>True\<close>) or store the labels (\<open>False\<close>).
\<close>

definition quantile_attempt :: "bool \<Rightarrow> rat list \<Rightarrow> error + string option list" where
  "quantile_attempt setitem_raises income_data =
     (let positive = filter (\<lambda>x. x > 0) income_data
      in if positive \<noteq> [] then
           (case pd_qcut positive n_quantiles quantile_labels of
              Inl e \<Rightarrow> Inl e
            | Inr buckets \<Rightarrow>
                if setitem_raises then Inl TypeError
                else Inr (assign_buckets income_data buckets))
         else Inr (map (\<lambda>x. Some ''No Income'') income_data))"

definition create_income_buckets :: "bool \<Rightarrow> rat list \<Rightarrow> error + string option list" where
  "create_income_buckets setitem_raises income_data0 =
     (let income_data = map (\<lambda>x. max x 0) income_data0
      in case quantile_attempt setitem_raises income_data of
           Inr result \<Rightarrow> Inr result
         | Inl e \<Rightarrow> pd_cut income_data fallback_bins fallback_labels)"

subsection \<open>schema/create_star_schema.py: fixed income bands\<close>

definition income_groups :: "(rat \<times> rat \<times> string) list" where
  "income_groups =
     [(-10000000, 0, ''Negative or Zero''),
      (1, 9999, ''Under $10,000''),
      (10000, 24999, ''$10,000-$24,999''),
      (25000, 49999, ''$25,000-$49,999''),
      (50000, 74999, ''$50,000-$74,999''),
      (75000, 99999, ''$75,000-$99,999''),
      (100000, 149999, ''$100,000-$149,999''),
      (150000, 10000000, ''$150,000+'')]"

text \<open>The inner loop: the label of the first band that contains the value, else \<open>Unknown\<close>.\<close>

fun band_label :: "(rat \<times> rat \<times> string) list \<Rightarrow> rat \<Rightarrow> string" where
  "band_label [] income = ''Unknown''"
| "band_label ((min_val, max_val, label) # groups) income =
     (if min_val \<le> income \<and> income \<le> max_val then label else band_label groups income)"

text \<open>
  \<open>create_income_groups\<close>: one row per distinct income, ascending; nothing is built when
  the fact table has no \<open>INCTOT\<close> column (\<open>None\<close>).
\<close>

definition create_income_groups :: "rat list option \<Rightarrow> (rat \<times> string) list option" where
  "create_income_groups inctot =
     (case inctot of
        None \<Rightarrow> None
      | Some column \<Rightarrow> Some (map (\<lambda>income. (income, band_label income_groups income)) (sort (remdups column))))"

section \<open>create_star_schema.py: dimension tables\<close>

subsection \<open>Python's int and str on codes\<close>

text \<open>
  \<open>int(code)\<close> on an ASCII string: surrounding white space is stripped, one sign is
  allowed, then decimal digits, where single underscores may separate digits. Anything else
  is the \<open>ValueError\<close> of the source, here \<open>None\<close>.
\<close>

definition is_space :: "char \<Rightarrow> bool" where
  "is_space c = (c \<in> set [CHR 0x09, CHR 0x0A, CHR 0x0B, CHR 0x0C, CHR 0x0D, CHR 0x20])"

definition is_digit :: "char \<Rightarrow> bool" where
  "is_digit c = (CHR ''0'' \<le> c \<and> c \<le> CHR ''9'')"

definition digit_val :: "char \<Rightarrow> int" where
  "digit_val c = int (of_char c) - 48"

definition strip :: "string \<Rightarrow> string" where
  "strip s = rev (dropWhile is_space (rev (dropWhile is_space s)))"

fun digits_value :: "int \<Rightarrow> string \<Rightarrow> int option" where
  "digits_value acc [] = Some acc"
| "digits_value acc (c # cs) =
     (if is_digit c then digits_value (acc * 10 + digit_val c) cs
      else if c = CHR ''_'' then
        (case cs of
           [] \<Rightarrow> None
         | d # ds \<Rightarrow> if is_digit d then digits_value (acc * 10 + digit_val d) ds else None)
      else None)"

definition unsigned_value :: "string \<Rightarrow> int option" where
  "unsigned_value s =
     (case s of [] \<Rightarrow> None | c # cs \<Rightarrow> if is_digit c then digits_value (digit_val c) cs else None)"

definition py_int :: "string \<Rightarrow> int option" where
  "py_int s =
     (case strip s of
        [] \<Rightarrow> None
      | c # cs \<Rightarrow>
          if c = CHR ''-'' then map_option uminus (unsigned_value cs)
          else if c = CHR ''+'' then unsigned_value cs
          else unsigned_value (c # cs))"

text \<open>\<open>str(val)\<close> of an integer, as the f-string of the synthesized label prints it.\<close>

definition digit_char :: "nat \<Rightarrow> char" where
  "digit_char d = ''0123456789'' ! (d mod 10)"

fun digits10 :: "nat \<Rightarrow> string" where
  "digits10 n = (if n < 10 then [digit_char n] else digits10 (n div 10) @ [digit_char (n mod 10)])"

declare digits10.simps [simp del]

definition str_int :: "int \<Rightarrow> string" where
  "str_int i = (if i < 0 then CHR ''-'' # digits10 (nat (- i)) else digits10 (nat i))"

subsection \<open>Codes, entries and the sort of a table\<close>

text \<open>
  A code of a dimension table is the integer that \<open>int(code)\<close> gave, or the codebook's
  string when \<open>int\<close> raised \<open>ValueError\<close>. The codes of a fact column are integers.
\<close>

datatype code = Num int | Sym string

definition parse_code :: "string \<Rightarrow> code" where
  "parse_code c = (case py_int c of Some n \<Rightarrow> Num n | None \<Rightarrow> Sym c)"

record dim_entry =
  entry_code :: code
  entry_value :: string
  entry_desc :: string

definition is_num :: "code \<Rightarrow> bool" where
  "is_num c = (case c of Num n \<Rightarrow> True | Sym s \<Rightarrow> False)"

definition num_of :: "code \<Rightarrow> int" where
  "num_of c = (case c of Num n \<Rightarrow> n | Sym s \<Rightarrow> 0)"

definition sym_of :: "code \<Rightarrow> string" where
  "sym_of c = (case c of Num n \<Rightarrow> [] | Sym s \<Rightarrow> s)"

text \<open>
  \<open>dim_df.sort_values(var_name)\<close>: integers are compared as integers and strings as
  strings; Python refuses to compare an integer with a string, so sorting a column that
  holds both raises \<open>TypeError\<close>. The order that pandas leaves among rows of equal code is
  not promised; the model keeps their order.
\<close>

definition sort_values_code :: "dim_entry list \<Rightarrow> error + dim_entry list" where
  "sort_values_code dim_data =
     (if list_all (\<lambda>e. is_num (entry_code e)) dim_data
        then Inr (sort_key (\<lambda>e. num_of (entry_code e)) dim_data)
      else if list_all (\<lambda>e. \<not> is_num (entry_code e)) dim_data
        then Inr (sort_key (\<lambda>e. sym_of (entry_code e)) dim_data)
      else Inl TypeError)"

subsection \<open>StarSchemaBuilder.create_dimension_tables\<close>

text \<open>
  The body of the loop for one variable with a definition: \<open>desc\<close> and \<open>codes\<close> are the two
  fields of \<open>var_info\<close> (the dictionary \<open>codes\<close> as the list of its items, in order), and
  \<open>fact_column\<close> is \<open>self.fact_df[var_name]\<close>. A frame built from an empty list has no
  columns, so \<open>dim_df[var_name]\<close> raises \<open>KeyError\<close> when the codebook declares no code.
  \<open>sorted(actual_values - defined_values)\<close> is the ascending list of the distinct observed
  codes that are not among the defined ones.
\<close>

definition declared_entries :: "string \<Rightarrow> (string \<times> string) list \<Rightarrow> dim_entry list" where
  "declared_entries desc codes =
     map (\<lambda>(c, description). \<lparr> entry_code = parse_code c, entry_value = description, entry_desc = desc \<rparr>) codes"

definition missing_values :: "dim_entry list \<Rightarrow> int list \<Rightarrow> int list" where
  "missing_values dim_data fact_column =
     sort (remdups (filter (\<lambda>v. Num v \<notin> set (map entry_code dim_data)) fact_column))"

definition undefined_entry :: "string \<Rightarrow> int \<Rightarrow> dim_entry" where
  "undefined_entry desc val =
     \<lparr> entry_code = Num val, entry_value = ''Undefined code: '' @ str_int val, entry_desc = desc \<rparr>"

definition create_dimension_table :: "string \<Rightarrow> (string \<times> string) list \<Rightarrow> int list \<Rightarrow> error + dim_entry list" where
  "create_dimension_table desc codes fact_column =
     (let dim_data = declared_entries desc codes
      in if dim_data = [] then Inl KeyError
         else sort_values_code
                (dim_data @ map (undefined_entry desc) (missing_values dim_data fact_column)))"

text \<open>
  The whole loop over the columns of the fact table that are neither measures nor excluded:
  a variable without a definition is skipped with a warning; an exception ends the loop.
\<close>

definition MEASURE_VARS :: "string list" where
  "MEASURE_VARS = [''PERWT'', ''AGE'', ''HHINCOME'', ''INCTOT'']"

definition EXCLUDE_VARS :: "string list" where
  "EXCLUDE_VARS = [''PERNUM'', ''YEAR'']"

fun build_tables ::
  "(string \<rightharpoonup> string \<times> (string \<times> string) list) \<Rightarrow> (string \<times> int list) list
     \<Rightarrow> error + (string \<times> dim_entry list) list" where
  "build_tables ipums_vars [] = Inr []"
| "build_tables ipums_vars ((var_name, fact_column) # cols) =
     (case ipums_vars var_name of
        None \<Rightarrow> build_tables ipums_vars cols
      | Some (desc, codes) \<Rightarrow>
          (case create_dimension_table desc codes fact_column of
             Inl e \<Rightarrow> Inl e
           | Inr dim_df \<Rightarrow>
               (case build_tables ipums_vars cols of
                  Inl e \<Rightarrow> Inl e
                | Inr tables \<Rightarrow> Inr ((var_name, dim_df) # tables))))"

definition create_dimension_tables ::
  "(string \<rightharpoonup> string \<times> (string \<times> string) list) \<Rightarrow> (string \<times> int list) list
     \<Rightarrow> error + (string \<times> dim_entry list) list" where
  "create_dimension_tables ipums_vars fact_df =
     build_tables ipums_vars
       (filter (\<lambda>(col, vs). col \<notin> set MEASURE_VARS \<and> col \<notin> set EXCLUDE_VARS) fact_df)"

section \<open>Sample inputs\<close>

text \<open>Concrete frames on which the results below are evaluated.\<close>

definition mk_row :: "int \<Rightarrow> int \<Rightarrow> rat \<Rightarrow> int \<Rightarrow> int \<Rightarrow> fact_row" where
  "mk_row state educ weight internet smartphone =
     \<lparr> STATEFIP = state, EDUC = educ, AGE = 40, INCTOT = 0, PERWT = weight,
       CINETHH = internet, CISMRTPHN = smartphone \<rparr>"

text \<open>Four rows with (weight, internet code) = (10,1), (10,0), (5,1), (5,9).\<close>

definition scenario1 :: "fact_row list" where
  "scenario1 = [mk_row 1 6 10 1 1, mk_row 1 6 10 0 1, mk_row 1 6 5 1 1, mk_row 1 6 5 9 1]"

definition unit_rows :: "fact_row list" where
  "unit_rows = [mk_row 1 6 1 1 1, mk_row 1 6 1 0 1, mk_row 1 6 1 1 1]"

text \<open>Two states with the same internet percentage, and a state table that lists 12 before 1.\<close>

definition tie_fact :: "fact_row list" where
  "tie_fact = [mk_row 12 6 10 1 1, mk_row 12 6 10 0 1, mk_row 1 6 5 1 0, mk_row 1 6 5 0 9]"

definition tie_dim :: "(int \<times> string) list" where
  "tie_dim = [(12, ''Florida''), (1, ''Alabama'')]"

definition educ_dim6 :: "(int \<times> string) list" where
  "educ_dim6 = [(6, ''Grade 12'')]"

definition row12 :: stat_row where
  "row12 = \<lparr> stat_code = 12, internet_percentage = 50, smartphone_percentage = 100, population_estimate = 20 \<rparr>"

definition row1 :: stat_row where
  "row1 = \<lparr> stat_code = 1, internet_percentage = 50, smartphone_percentage = 0, population_estimate = 10 \<rparr>"

definition row6 :: stat_row where
  "row6 = \<lparr> stat_code = 6, internet_percentage = 50, smartphone_percentage = 80, population_estimate = 30 \<rparr>"

text \<open>One state whose two rows both have weight zero.\<close>

definition zero_weight_rows :: "fact_row list" where
  "zero_weight_rows = [mk_row 1 6 0 1 1, mk_row 1 6 0 0 1]"

definition by_state :: "fact_row \<Rightarrow> int option" where
  "by_state r = Some (STATEFIP r)"

definition access1 :: "int access_row" where
  "access1 = \<lparr> dimension_value = 1, access_population = 10, access_percentage = 50 \<rparr>"

definition access12 :: "int access_row" where
  "access12 = \<lparr> dimension_value = 12, access_population = 20, access_percentage = 50 \<rparr>"

definition access7 :: "int access_row" where
  "access7 = \<lparr> dimension_value = 7, access_population = 10, access_percentage = 50 \<rparr>"

definition sample_frame :: "int dim_frame" where
  "sample_frame = \<lparr> frame_columns = [''STATEFIP'', ''STATEFIP_value'', ''STATEFIP_desc''],
                    frame_rows = [(1, ''Alabama''), (2, ''Alaska'')] \<rparr>"

text \<open>State 2 has a row that is valid for the internet question only.\<close>

definition partial_fact :: "fact_row list" where
  "partial_fact = [mk_row 1 6 10 1 1, mk_row 2 6 5 1 9]"

definition partial_dim :: "(int \<times> string) list" where
  "partial_dim = [(1, ''Alabama''), (2, ''Alaska'')]"

text \<open>Codebooks: two declared codes; the same code written twice; a numeric and a symbolic code.\<close>

definition yes_no_codes :: "(string \<times> string) list" where
  "yes_no_codes = [(''1'', ''Yes''), (''2'', ''No'')]"

definition yes_no_table :: "dim_entry list" where
  "yes_no_table =
     [\<lparr> entry_code = Num 1, entry_value = ''Yes'', entry_desc = ''Response'' \<rparr>,
      \<lparr> entry_code = Num 2, entry_value = ''No'', entry_desc = ''Response'' \<rparr>,
      \<lparr> entry_code = Num 3, entry_value = ''Undefined code: 3'', entry_desc = ''Response'' \<rparr>]"

definition padded_codes :: "(string \<times> string) list" where
  "padded_codes = [(''1'', ''Yes''), (''01'', ''Yes'')]"

definition mixed_codes :: "(string \<times> string) list" where
  "mixed_codes = [(''1'', ''Yes''), (''B'', ''Other'')]"

text \<open>
  Incomes with seven distinct positive values of which the lowest occurs twice, so that the
  first two of the eight quantile edges coincide; and the labels of the fallback bands for
  them.
\<close>

definition clustered_incomes :: "rat list" where
  "clustered_incomes = [10000, 10000, 20000, 30000, 40000, 50000, 60000, 70000]"

definition clustered_fallback :: "string option list" where
  "clustered_fallback = [Some ''Very Low'', Some ''Very Low'', Some ''Very Low'', Some ''Low'',
      Some ''Low'', Some ''Middle'', Some ''Middle'', Some ''High'']"

text \<open>
  The ages of the third scenario, their labels by the age cut, and the inclusive bands that
  the scenario lists.
\<close>

definition scenario_ages :: "rat list" where
  "scenario_ages = [-5, 0, 18, 19, 100, 999]"

definition scenario_labels :: "string option list" where
  "scenario_labels = [None, None, Some ''0-18'', Some ''19-25'', Some ''65+'', None]"

definition scenario_bands :: "(rat \<times> rat \<times> string) list" where
  "scenario_bands = [(0, 18, ''0-18''), (19, 25, ''19-25''), (26, 35, ''26-35''),
                     (36, 50, ''36-50''), (51, 65, ''51-65''), (65, 100, ''65+'')]"

section \<open>Helper lemmas\<close>

lemmas sample_defs = mk_row_def scenario1_def unit_rows_def tie_fact_def tie_dim_def educ_dim6_def
  row12_def row1_def row6_def zero_weight_rows_def by_state_def access1_def access12_def access7_def
  sample_frame_def partial_fact_def partial_dim_def

subsection \<open>Rounding\<close>

lemma pow2_powi: "pow2 e = 2 powi e"
  by (simp add: pow2_def power_int_def inverse_eq_divide power_one_over)


lemma pow2_mono: "a \<le> b \<Longrightarrow> pow2 a \<le> pow2 b"
  by (simp add: pow2_powi power_int_increasing)

lemma pow2_less_cancel: "pow2 a \<le> x \<Longrightarrow> x < pow2 b \<Longrightarrow> a < b"
proof (rule ccontr)
  assume h: "pow2 a \<le> x" "x < pow2 b" and n: "\<not> a < b"
  then have "pow2 b \<le> pow2 a" by (simp add: pow2_mono)
  with h show False by simp
qed












lemma float64_samples:
  "float_mul (float_div 10 20) 100 = 50" "float_mul (float_div 5 10) 100 = 50"
  "float_mul (float_div 20 20) 100 = 100" "float_mul (float_div 0 5) 100 = 0"
  "float_mul (float_div 15 30) 100 = 50" "float_mul (float_div 20 25) 100 = 80"
  "float_mul (float_div 15 25) 100 = 60"
  "float_mul (float_div 2 3) 100 = 2345624805922133 / 35184372088832"
  "float64 (100 * 2 / 3) = 4691249611844267 / 70368744177664"
  by code_simp+

subsection \<open>Frames\<close>


lemma merge_left_rows:
  "set (merge_left key stats dt) =
     {(s, None) | s. s \<in> set stats \<and> key s \<notin> fst ` set dt} \<union>
     {(s, Some l) | s l. s \<in> set stats \<and> (key s, l) \<in> set dt}"
proof -
  have one: "set (case filter (\<lambda>d. fst d = key s) dt of [] \<Rightarrow> [(s, None)]
                 | ms \<Rightarrow> map (\<lambda>d. (s, Some (snd d))) ms) =
       {(s, None) | s'. s' = s \<and> key s \<notin> fst ` set dt} \<union>
       {(s, Some l) | l. (key s, l) \<in> set dt}" (is "set ?c = ?R") for s
  proof (cases "filter (\<lambda>d. fst d = key s) dt")
    case Nil
    then have "\<forall>d \<in> set dt. fst d \<noteq> key s"
      by (simp add: filter_empty_conv)
    with Nil show ?thesis by force
  next
    case (Cons m ms)
    then have "m \<in> set (filter (\<lambda>d. fst d = key s) dt)" by simp
    then have ex: "key s \<in> fst ` set dt" by force
    have "set ?c = (\<lambda>d. (s, Some (snd d))) ` set (filter (\<lambda>d. fst d = key s) dt)"
      using Cons by simp
    also have "\<dots> = {(s, Some l) | l. (key s, l) \<in> set dt}"
      by force
    finally show ?thesis using ex by auto
  qed
  have "set (merge_left key stats dt) =
        (\<Union>s \<in> set stats. {(s, None) | s'. s' = s \<and> key s \<notin> fst ` set dt} \<union>
       {(s, Some l) | l. (key s, l) \<in> set dt})"
    unfolding merge_left_def by (simp add: one)
  then show ?thesis by auto
qed

lemma fst_merge_left: "fst ` set (merge_left key stats dt) = set stats"
proof -
  have "\<And>s. s \<in> set stats \<Longrightarrow> s \<in> fst ` set (merge_left key stats dt)"
  proof -
    fix s assume s: "s \<in> set stats"
    show "s \<in> fst ` set (merge_left key stats dt)"
    proof (cases "key s \<in> fst ` set dt")
      case True
      then obtain l where "(key s, l) \<in> set dt" by force
      with s have "(s, Some l) \<in> set (merge_left key stats dt)"
        by (simp add: merge_left_rows)
      then show ?thesis by force
    next
      case False
      with s have "(s, None) \<in> set (merge_left key stats dt)"
        by (simp add: merge_left_rows)
      then show ?thesis by force
    qed
  qed
  moreover have "\<And>p. p \<in> set (merge_left key stats dt) \<Longrightarrow> fst p \<in> set stats"
    by (auto simp: merge_left_rows)
  ultimately show ?thesis by auto
qed

lemma merge_left_distinct_dim:
  "distinct (map fst dt) \<Longrightarrow> map fst (merge_left key stats dt) = stats"
proof -
  assume d: "distinct (map fst dt)"
  have len: "length (filter (\<lambda>d. fst d = k) dt) \<le> 1" for k
    using d
  proof (induction dt)
    case Nil then show ?case by simp
  next
    case (Cons a dt)
    then show ?case by (auto simp: filter_empty_conv image_iff)
  qed
  have one: "map fst (case filter (\<lambda>d. fst d = key s) dt of [] \<Rightarrow> [(s, None)]
                 | ms \<Rightarrow> map (\<lambda>d. (s, Some (snd d))) ms) = [s]" for s
  proof (cases "filter (\<lambda>d. fst d = key s) dt")
    case Nil then show ?thesis by simp
  next
    case (Cons m ms)
    with len[of "key s"] have "ms = []" by simp
    with Cons show ?thesis by simp
  qed
  show ?thesis
    unfolding merge_left_def by (induction stats) (simp_all add: one)
qed

lemma set_sort_values_desc [simp]: "set (sort_values_desc f xs) = set xs"
  by (simp add: sort_values_desc_def)

lemma sort_values_desc_descending:
  "sorted_wrt (\<lambda>a b. a \<ge> b) (map f (sort_values_desc f xs))"
proof -
  have "sorted (map f (sort_key f (rev xs)))" by simp
  then have "sorted_wrt (\<lambda>a b. b \<le> a) (rev (map f (sort_key f (rev xs))))"
    by (simp only: sorted_wrt_rev)
  then show ?thesis by (simp add: sort_values_desc_def rev_map)
qed

lemma code_stats_row:
  "s \<in> set (code_stats col fact_df c) \<Longrightarrow>
     stat_code s = c \<and>
     population_estimate s = sum_list (map PERWT (filter (\<lambda>r. col r = c) (valid_internet fact_df))) \<and>
     internet_percentage s =
       calculate_weighted_percentage (filter (\<lambda>r. col r = c) (valid_internet fact_df)) PERWT CINETHH 1 \<and>
     smartphone_percentage s =
       calculate_weighted_percentage (filter (\<lambda>r. col r = c) (valid_smartphone fact_df)) PERWT CISMRTPHN 1"
  by (auto simp: code_stats_def Let_def split: if_splits)

lemma code_stats_nonempty:
  "code_stats col fact_df c \<noteq> [] \<longleftrightarrow>
     (\<exists>r \<in> set (valid_internet fact_df). col r = c) \<and> (\<exists>r \<in> set (valid_smartphone fact_df). col r = c)"
  by (auto simp: code_stats_def Let_def filter_empty_conv)

lemma stat_codes_of_loop:
  "stat_code ` set (concat (map (code_stats col fact_df) cs)) =
     {c \<in> set cs. (\<exists>r \<in> set (valid_internet fact_df). col r = c) \<and>
                  (\<exists>r \<in> set (valid_smartphone fact_df). col r = c)}"
proof -
  have "stat_code ` set (code_stats col fact_df c) =
          (if code_stats col fact_df c \<noteq> [] then {c} else {})" for c
    by (auto simp: code_stats_def Let_def)
  then show ?thesis
    by (auto simp: code_stats_nonempty image_UN simp del: set_concat
             simp add: set_concat)
qed

lemma emitted_codes_merge_and_sort:
  "emitted_codes (merge_and_sort stats dt) = stat_code ` set stats"
proof (cases "stats = []")
  case True
  then show ?thesis by (simp add: merge_and_sort_def emitted_codes_def)
next
  case False
  have "(\<lambda>p. stat_code (fst p)) ` set (merge_left stat_code stats dt) =
        stat_code ` fst ` set (merge_left stat_code stats dt)"
    by (simp add: image_image)
  with False show ?thesis
    by (simp add: merge_and_sort_def emitted_codes_def fst_merge_left)
qed

lemma collect_Inr: "collect rs = Inr xs \<Longrightarrow> rs = map Inr xs"
proof (induction rs arbitrary: xs rule: collect.induct)
  case 1 then show ?case by simp
next
  case (2 e rs) then show ?case by simp
next
  case (3 x rs)
  then show ?case by (auto split: sum.splits)
qed

lemma access_stats_row:
  assumes "calculate_weighted_access_stats df g w a = Inr stats" and "s \<in> set stats"
  shows "agg_group w a (group_rows g df (dimension_value s)) (dimension_value s) = Inr s
         \<and> dimension_value s \<in> set (group_keys g df)"
proof -
  from assms(1) obtain gs where
    c: "collect (map (\<lambda>k. agg_group w a (group_rows g df k) k) (group_keys g df)) = Inr gs"
    and st: "stats = sort_values_desc access_percentage gs"
    by (auto simp: calculate_weighted_access_stats_def split: sum.splits)
  from collect_Inr[OF c]
  have m: "map (\<lambda>k. agg_group w a (group_rows g df k) k) (group_keys g df) = map Inr gs" .
  from assms(2) st have "s \<in> set gs" by simp
  then have "Inr s \<in> set (map (\<lambda>k. agg_group w a (group_rows g df k) k) (group_keys g df))"
    unfolding m by simp
  then obtain k where k: "k \<in> set (group_keys g df)" "agg_group w a (group_rows g df k) k = Inr s"
    by auto
  from k(2) have "dimension_value s = k"
    by (auto simp: agg_group_def split: sum.splits)
  with k show ?thesis by simp
qed


lemma merge_and_sort_rows:
  "merge_and_sort stats dt = Inr rows \<Longrightarrow> set rows = set (merge_left stat_code stats dt) \<and>
     sorted_wrt (\<lambda>a b. a \<ge> b) (map (\<lambda>p. internet_percentage (fst p)) rows)"
  by (auto simp: merge_and_sort_def sort_values_desc_descending split: if_splits)

lemma merge_dimension_descriptions_rows:
  assumes "merge_dimension_descriptions stats_df dim_table dim_name = Inr rows"
  shows "fst ` set rows = set stats_df"
proof -
  from assms have "rows = merge_left dimension_value stats_df (frame_rows dim_table)
                   \<or> rows = map (\<lambda>s. (s, None)) stats_df"
    by (auto simp: merge_dimension_descriptions_def Let_def split: if_splits)
  then show ?thesis
  proof
    assume "rows = merge_left dimension_value stats_df (frame_rows dim_table)"
    then show ?thesis by (simp only: fst_merge_left)
  next
    assume "rows = map (\<lambda>s. (s, None)) stats_df"
    then show ?thesis by (simp add: image_image)
  qed
qed

lemma tie_state_eval:
  "analyze_by_state tie_fact tie_dim = Inr [(row12, Some ''Florida''), (row1, Some ''Alabama'')]"
  by (simp add: analyze_by_state_def merge_and_sort_def code_stats_def valid_internet_def valid_smartphone_def
      calculate_weighted_percentage_def merge_left_def sort_values_desc_def sample_defs float64_samples)

lemma tie_educ_eval:
  "analyze_by_education tie_fact educ_dim6 = Inr [(row6, Some ''Grade 12'')]"
  by (simp add: analyze_by_education_def merge_and_sort_def code_stats_def valid_internet_def valid_smartphone_def
      calculate_weighted_percentage_def merge_left_def sort_values_desc_def sample_defs float64_samples)

lemma tie_access_eval:
  "calculate_weighted_access_stats tie_fact by_state PERWT CINETHH = Inr [access1, access12]"
  by (simp add: calculate_weighted_access_stats_def group_keys_def group_rows_def agg_group_def
      np_average_def List.map_filter_def sort_values_desc_def sample_defs float64_samples)

lemma upper_statefip: "upper ''statefip'' = ''STATEFIP''"
  by code_simp

lemma sample_merge_eval:
  "merge_dimension_descriptions [access1, access7] sample_frame ''statefip'' =
     Inr [(access1, Some ''Alabama''), (access7, None)]"
  by (simp add: merge_dimension_descriptions_def upper_statefip merge_left_def sample_defs)



lemma mset_sort_values_desc: "mset (sort_values_desc f xs) = mset xs"
  by (simp add: sort_values_desc_def)

lemma merge_and_sort_mset:
  "merge_and_sort stats dt = Inr rows \<Longrightarrow> mset rows = mset (merge_left stat_code stats dt)"
  by (auto simp: merge_and_sort_def mset_sort_values_desc split: if_splits)

lemma merge_dimension_descriptions_join:
  "dim_name \<notin> set [''AGE_BUCKET'', ''INCTOT_BUCKET''] \<Longrightarrow>
   upper dim_name @ ''_value'' \<in> set (frame_columns dim_table) \<Longrightarrow>
   upper dim_name \<in> set (frame_columns dim_table) \<Longrightarrow>
     merge_dimension_descriptions stats_df dim_table dim_name =
       Inr (merge_left dimension_value stats_df (frame_rows dim_table))"
  by (simp add: merge_dimension_descriptions_def Let_def)

lemma merge_dimension_descriptions_plain:
  "dim_name \<in> set [''AGE_BUCKET'', ''INCTOT_BUCKET''] \<or>
   upper dim_name @ ''_value'' \<notin> set (frame_columns dim_table) \<Longrightarrow>
     merge_dimension_descriptions stats_df dim_table dim_name = Inr (map (\<lambda>s. (s, None)) stats_df)"
  by (auto simp add: merge_dimension_descriptions_def Let_def)

lemma analysis_rows_labelled:
  assumes "merge_and_sort (concat (map (code_stats col fact_df) cs)) dt = Inr rows"
    and "(t, lab) \<in> set rows" and "set cs \<subseteq> fst ` set dt"
  shows "\<exists>name. lab = Some name \<and> (stat_code t, name) \<in> set dt"
proof -
  let ?stats = "concat (map (code_stats col fact_df) cs)"
  from assms(1,2) have m: "(t, lab) \<in> set (merge_left stat_code ?stats dt)"
    using merge_and_sort_rows by blast
  then have "t \<in> set ?stats" by (auto simp: merge_left_rows)
  then obtain c where "c \<in> set cs" "t \<in> set (code_stats col fact_df c)" by auto
  with code_stats_row [of t col fact_df c] assms(3) have k: "stat_code t \<in> fst ` set dt" by auto
  show ?thesis
  proof (cases lab)
    case None
    with m k show ?thesis by (auto simp: merge_left_rows)
  next
    case (Some name)
    with m show ?thesis by (auto simp: merge_left_rows)
  qed
qed

lemma merge_and_sort_tie_eval:
  "merge_and_sort [row12, row1] tie_dim = Inr [(row12, Some ''Florida''), (row1, Some ''Alabama'')]"
  by (simp add: merge_and_sort_def merge_left_def sort_values_desc_def sample_defs)

section \<open>Weighted aggregation\<close>




text \<open>
  C2. The group of \<open>zero_weight_rows\<close> has total weight zero. The vectorised aggregation raises
  \<open>ZeroDivisionError\<close> on it, while \<open>calculate_weighted_percentage\<close> returns 0 on the same rows.
\<close>

theorem zero_weight_group_raises:
  "calculate_weighted_access_stats zero_weight_rows by_state PERWT CINETHH = Inl ZeroDivisionError \<and>
   calculate_weighted_percentage zero_weight_rows PERWT CINETHH 1 = 0"
  by (simp add: calculate_weighted_access_stats_def group_keys_def group_rows_def agg_group_def
      np_average_def calculate_weighted_percentage_def List.map_filter_def sample_defs)

text \<open>
  C7. In every record of the per-state and of the per-education result the population
  estimate is the sum of the weights of all internet-valid rows with that code; in every
  record of the vectorised statistics it is the sum of the weights of all rows of the group.
\<close>

theorem population_estimate_sums_group_weights:
  "(analyze_by_state fact_df state_dim = Inr rows \<and> (s, l) \<in> set rows \<longrightarrow>
      population_estimate s =
        sum_list (map PERWT (filter (\<lambda>r. STATEFIP r = stat_code s) (valid_internet fact_df)))) \<and>
   (analyze_by_education fact_df educ_dim = Inr rows' \<and> (s', l') \<in> set rows' \<longrightarrow>
      population_estimate s' =
        sum_list (map PERWT (filter (\<lambda>r. EDUC r = stat_code s') (valid_internet fact_df)))) \<and>
   (calculate_weighted_access_stats df g w a = Inr stats \<and> t \<in> set stats \<longrightarrow>
      access_population t = sum_list (map w (filter (\<lambda>r. g r = Some (dimension_value t)) df)))"
proof -
  have loop: "population_estimate x =
        sum_list (map PERWT (filter (\<lambda>r. col r = stat_code x) (valid_internet fact_df)))"
    if "merge_and_sort (concat (map (code_stats col fact_df) cs)) dt = Inr rs" and "(x, y) \<in> set rs"
    for col cs dt rs x y
  proof -
    from that have "(x, y) \<in> set (merge_left stat_code (concat (map (code_stats col fact_df) cs)) dt)"
      using merge_and_sort_rows by blast
    then have "x \<in> fst ` set (merge_left stat_code (concat (map (code_stats col fact_df) cs)) dt)"
      by force
    then have "x \<in> set (concat (map (code_stats col fact_df) cs))"
      by (simp only: fst_merge_left)
    then obtain c where "x \<in> set (code_stats col fact_df c)" by auto
    from code_stats_row[OF this] show ?thesis by simp
  qed
  have a: "analyze_by_state fact_df state_dim = Inr rows \<and> (s, l) \<in> set rows \<longrightarrow>
      population_estimate s =
        sum_list (map PERWT (filter (\<lambda>r. STATEFIP r = stat_code s) (valid_internet fact_df)))"
    unfolding analyze_by_state_def using loop by blast
  have b: "analyze_by_education fact_df educ_dim = Inr rows' \<and> (s', l') \<in> set rows' \<longrightarrow>
      population_estimate s' =
        sum_list (map PERWT (filter (\<lambda>r. EDUC r = stat_code s') (valid_internet fact_df)))"
    unfolding analyze_by_education_def using loop by blast
  have c: "calculate_weighted_access_stats df g w a = Inr stats \<and> t \<in> set stats \<longrightarrow>
      access_population t = sum_list (map w (filter (\<lambda>r. g r = Some (dimension_value t)) df))"
  proof
    assume h: "calculate_weighted_access_stats df g w a = Inr stats \<and> t \<in> set stats"
    then have "agg_group w a (group_rows g df (dimension_value t)) (dimension_value t) = Inr t"
      using access_stats_row by blast
    then obtain avg where
      "\<lparr> dimension_value = dimension_value t,
         access_population = sum_list (map w (group_rows g df (dimension_value t))),
         access_percentage = float_mul avg 100 \<rparr> = t"
      by (auto simp: agg_group_def split: sum.splits)
    then have "access_population t =
        access_population \<lparr> dimension_value = dimension_value t,
         access_population = sum_list (map w (group_rows g df (dimension_value t))),
         access_percentage = float_mul avg 100 \<rparr>"
      by (rule arg_cong [OF sym])
    then show "access_population t = sum_list (map w (filter (\<lambda>r. g r = Some (dimension_value t)) df))"
      by (simp add: group_rows_def)
  qed
  from a b c show ?thesis by blast
qed

text \<open>C7 on the two-state sample: the estimates are 20, 30 and 20.\<close>

theorem population_estimate_sums_group_weights_witness:
  "analyze_by_state tie_fact tie_dim = Inr [(row12, Some ''Florida''), (row1, Some ''Alabama'')] \<and>
   (row12, Some ''Florida'') \<in> set [(row12, Some ''Florida''), (row1, Some ''Alabama'')] \<and>
   population_estimate row12 =
     sum_list (map PERWT (filter (\<lambda>r. STATEFIP r = stat_code row12) (valid_internet tie_fact))) \<and>
   analyze_by_education tie_fact educ_dim6 = Inr [(row6, Some ''Grade 12'')] \<and>
   (row6, Some ''Grade 12'') \<in> set [(row6, Some ''Grade 12'')] \<and>
   population_estimate row6 =
     sum_list (map PERWT (filter (\<lambda>r. EDUC r = stat_code row6) (valid_internet tie_fact))) \<and>
   calculate_weighted_access_stats tie_fact by_state PERWT CINETHH = Inr [access1, access12] \<and>
   access12 \<in> set [access1, access12] \<and>
   access_population access12 =
     sum_list (map PERWT (filter (\<lambda>r. by_state r = Some (dimension_value access12)) tie_fact)) \<and>
   population_estimate row12 = 20 \<and> population_estimate row6 = 30 \<and> access_population access12 = 20"
  using population_estimate_sums_group_weights
          [where fact_df = tie_fact and state_dim = tie_dim
             and rows = "[(row12, Some ''Florida''), (row1, Some ''Alabama'')]"
             and s = row12 and l = "Some ''Florida''"
             and educ_dim = educ_dim6 and rows' = "[(row6, Some ''Grade 12'')]"
             and s' = row6 and l' = "Some ''Grade 12''"
             and df = tie_fact and g = by_state and w = PERWT and a = CINETHH
             and stats = "[access1, access12]" and t = access12]
        tie_state_eval tie_educ_eval tie_access_eval
  by (simp add: row12_def row6_def access12_def)

text \<open>
  C10. A code has a record in the per-state (per-education) result exactly when it is a code
  of the dimension table and has at least one internet-valid row and at least one
  smartphone-valid row.
\<close>

theorem record_emitted_iff_both_subsets:
  "(c \<in> emitted_codes (analyze_by_state fact_df state_dim) \<longleftrightarrow>
      c \<in> fst ` set state_dim \<and>
      (\<exists>r \<in> set (valid_internet fact_df). STATEFIP r = c) \<and>
      (\<exists>r \<in> set (valid_smartphone fact_df). STATEFIP r = c)) \<and>
   (c \<in> emitted_codes (analyze_by_education fact_df educ_dim) \<longleftrightarrow>
      c \<in> fst ` set educ_dim \<and>
      (\<exists>r \<in> set (valid_internet fact_df). EDUC r = c) \<and>
      (\<exists>r \<in> set (valid_smartphone fact_df). EDUC r = c))"
  unfolding analyze_by_state_def analyze_by_education_def emitted_codes_merge_and_sort stat_codes_of_loop
  by auto

text \<open>C10 on a sample where state 2 has an internet-valid row but no smartphone-valid row.\<close>

theorem record_emitted_iff_both_subsets_witness:
  "1 \<in> fst ` set partial_dim \<and> 2 \<in> fst ` set partial_dim \<and>
   (\<exists>r \<in> set (valid_internet partial_fact). STATEFIP r = 1) \<and>
   (\<exists>r \<in> set (valid_smartphone partial_fact). STATEFIP r = 1) \<and>
   (\<exists>r \<in> set (valid_internet partial_fact). STATEFIP r = 2) \<and>
   \<not> (\<exists>r \<in> set (valid_smartphone partial_fact). STATEFIP r = 2) \<and>
   1 \<in> emitted_codes (analyze_by_state partial_fact partial_dim) \<and>
   2 \<notin> emitted_codes (analyze_by_state partial_fact partial_dim) \<and>
   6 \<in> emitted_codes (analyze_by_education partial_fact educ_dim6)"
  using record_emitted_iff_both_subsets [of 1 partial_fact partial_dim educ_dim6]
        record_emitted_iff_both_subsets [of 2 partial_fact partial_dim educ_dim6]
        record_emitted_iff_both_subsets [of 6 partial_fact partial_dim educ_dim6]
  by (simp add: valid_internet_def valid_smartphone_def sample_defs)

text \<open>
  C8. The merge is a left join on the key: a statistics row whose key equals the code of a
  dimension entry appears with the label of that entry and not with a missing label; a row
  whose key matches no dimension entry is kept with a missing label and gets no other label;
  every labelled row of the result is a statistics row with the label of an entry of its key;
  so the rows of the result are exactly the statistics rows, and when the dimension codes are
  distinct the result has them once each, in their order. \<open>merge_dimension_descriptions\<close>
  returns this join when the dimension is not a bucket and the frame has the code and the
  label column, and the statistics without labels when the dimension is a bucket or the frame
  has no label column. The result of the merge in the per-state and per-education analyses is
  a permutation of this join, and each of its rows carries the label of its code.
\<close>

theorem merge_keeps_every_statistics_row:
  "fst ` set (merge_left key stats dt) = set stats \<and>
   (s \<in> set stats \<and> (key s, l) \<in> set dt \<longrightarrow>
      (s, Some l) \<in> set (merge_left key stats dt) \<and> (s, None) \<notin> set (merge_left key stats dt)) \<and>
   (s \<in> set stats \<and> key s \<notin> fst ` set dt \<longrightarrow>
      (s, None) \<in> set (merge_left key stats dt) \<and> (\<forall>l. (s, Some l) \<notin> set (merge_left key stats dt))) \<and>
   ((s, Some l) \<in> set (merge_left key stats dt) \<longrightarrow> s \<in> set stats \<and> (key s, l) \<in> set dt) \<and>
   (distinct (map fst dt) \<longrightarrow> map fst (merge_left key stats dt) = stats) \<and>
   (dim_name \<notin> set [''AGE_BUCKET'', ''INCTOT_BUCKET''] \<and>
    upper dim_name @ ''_value'' \<in> set (frame_columns dim_table) \<and>
    upper dim_name \<in> set (frame_columns dim_table) \<longrightarrow>
      merge_dimension_descriptions stats_df dim_table dim_name =
        Inr (merge_left dimension_value stats_df (frame_rows dim_table))) \<and>
   (dim_name \<in> set [''AGE_BUCKET'', ''INCTOT_BUCKET''] \<or>
    upper dim_name @ ''_value'' \<notin> set (frame_columns dim_table) \<longrightarrow>
      merge_dimension_descriptions stats_df dim_table dim_name = Inr (map (\<lambda>s. (s, None)) stats_df)) \<and>
   (merge_dimension_descriptions stats_df dim_table dim_name = Inr rows \<longrightarrow> fst ` set rows = set stats_df) \<and>
   (merge_and_sort state_stats state_dim = Inr rows' \<longrightarrow>
      mset rows' = mset (merge_left stat_code state_stats state_dim) \<and> fst ` set rows' = set state_stats) \<and>
   (analyze_by_state fact_df state_dim = Inr result \<and> (t, lab) \<in> set result \<longrightarrow>
      (\<exists>name. lab = Some name \<and> (stat_code t, name) \<in> set state_dim)) \<and>
   (analyze_by_education fact_df educ_dim = Inr result' \<and> (t', lab') \<in> set result' \<longrightarrow>
      (\<exists>name. lab' = Some name \<and> (stat_code t', name) \<in> set educ_dim))"
proof -
  have a: "fst ` set (merge_left key stats dt) = set stats" by (rule fst_merge_left)
  have a': "s \<in> set stats \<and> (key s, l) \<in> set dt \<longrightarrow>
      (s, Some l) \<in> set (merge_left key stats dt) \<and> (s, None) \<notin> set (merge_left key stats dt)"
    by (force simp: merge_left_rows)
  have b: "s \<in> set stats \<and> key s \<notin> fst ` set dt \<longrightarrow>
      (s, None) \<in> set (merge_left key stats dt) \<and> (\<forall>l. (s, Some l) \<notin> set (merge_left key stats dt))"
    by (force simp: merge_left_rows)
  have c: "(s, Some l) \<in> set (merge_left key stats dt) \<longrightarrow> s \<in> set stats \<and> (key s, l) \<in> set dt"
    by (simp add: merge_left_rows)
  have d: "distinct (map fst dt) \<longrightarrow> map fst (merge_left key stats dt) = stats"
    by (simp add: merge_left_distinct_dim)
  have e1: "dim_name \<notin> set [''AGE_BUCKET'', ''INCTOT_BUCKET''] \<and>
    upper dim_name @ ''_value'' \<in> set (frame_columns dim_table) \<and>
    upper dim_name \<in> set (frame_columns dim_table) \<longrightarrow>
      merge_dimension_descriptions stats_df dim_table dim_name =
        Inr (merge_left dimension_value stats_df (frame_rows dim_table))"
    using merge_dimension_descriptions_join by blast
  have e2: "dim_name \<in> set [''AGE_BUCKET'', ''INCTOT_BUCKET''] \<or>
    upper dim_name @ ''_value'' \<notin> set (frame_columns dim_table) \<longrightarrow>
      merge_dimension_descriptions stats_df dim_table dim_name = Inr (map (\<lambda>s. (s, None)) stats_df)"
    using merge_dimension_descriptions_plain by blast
  have e: "merge_dimension_descriptions stats_df dim_table dim_name = Inr rows \<longrightarrow> fst ` set rows = set stats_df"
    by (simp add: merge_dimension_descriptions_rows)
  have f: "merge_and_sort state_stats state_dim = Inr rows' \<longrightarrow>
      mset rows' = mset (merge_left stat_code state_stats state_dim) \<and> fst ` set rows' = set state_stats"
    using merge_and_sort_mset merge_and_sort_rows fst_merge_left by metis
  have g: "analyze_by_state fact_df state_dim = Inr result \<and> (t, lab) \<in> set result \<longrightarrow>
      (\<exists>name. lab = Some name \<and> (stat_code t, name) \<in> set state_dim)"
    unfolding analyze_by_state_def
    using analysis_rows_labelled [of STATEFIP fact_df "map fst state_dim" state_dim result t lab] by simp
  have h: "analyze_by_education fact_df educ_dim = Inr result' \<and> (t', lab') \<in> set result' \<longrightarrow>
      (\<exists>name. lab' = Some name \<and> (stat_code t', name) \<in> set educ_dim)"
    unfolding analyze_by_education_def
    using analysis_rows_labelled [of EDUC fact_df "sort (map fst educ_dim)" educ_dim result' t' lab'] by simp
  show ?thesis by (intro conjI a a' b c d e1 e2 e f g h)
qed

text \<open>
  C8 on two statistics rows, of which the one with key 1 has a dimension entry and the one with
  key 7 has none, and on the two-state sample.
\<close>

theorem merge_keeps_every_statistics_row_witness:
  "access7 \<in> set [access1, access7] \<and>
   dimension_value access7 \<notin> fst ` set (frame_rows sample_frame) \<and>
   (access7, None) \<in> set (merge_left dimension_value [access1, access7] (frame_rows sample_frame)) \<and>
   access1 \<in> set [access1, access7] \<and>
   (dimension_value access1, ''Alabama'') \<in> set (frame_rows sample_frame) \<and>
   (access1, Some ''Alabama'') \<in> set (merge_left dimension_value [access1, access7] (frame_rows sample_frame)) \<and>
   (access1, None) \<notin> set (merge_left dimension_value [access1, access7] (frame_rows sample_frame)) \<and>
   distinct (map fst (frame_rows sample_frame)) \<and>
   map fst (merge_left dimension_value [access1, access7] (frame_rows sample_frame)) = [access1, access7] \<and>
   ''statefip'' \<notin> set [''AGE_BUCKET'', ''INCTOT_BUCKET''] \<and>
   upper ''statefip'' @ ''_value'' \<in> set (frame_columns sample_frame) \<and>
   upper ''statefip'' \<in> set (frame_columns sample_frame) \<and>
   merge_dimension_descriptions [access1, access7] sample_frame ''statefip'' =
     Inr [(access1, Some ''Alabama''), (access7, None)] \<and>
   merge_dimension_descriptions [access1, access7] sample_frame ''AGE_BUCKET'' =
     Inr [(access1, None), (access7, None)] \<and>
   merge_and_sort [row12, row1] tie_dim = Inr [(row12, Some ''Florida''), (row1, Some ''Alabama'')] \<and>
   mset [(row12, Some ''Florida''), (row1, Some ''Alabama'')] = mset (merge_left stat_code [row12, row1] tie_dim) \<and>
   analyze_by_state tie_fact tie_dim = Inr [(row12, Some ''Florida''), (row1, Some ''Alabama'')] \<and>
   (stat_code row12, ''Florida'') \<in> set tie_dim \<and>
   analyze_by_education tie_fact educ_dim6 = Inr [(row6, Some ''Grade 12'')] \<and>
   (stat_code row6, ''Grade 12'') \<in> set educ_dim6"
  using merge_keeps_every_statistics_row
          [where key = dimension_value and stats = "[access1, access7]" and dt = "frame_rows sample_frame"
             and s = access7 and stats_df = "[access1, access7]" and dim_table = sample_frame
             and dim_name = "''statefip''" and rows = "[(access1, Some ''Alabama''), (access7, None)]"
             and state_stats = "[row12, row1]" and state_dim = tie_dim
             and rows' = "[(row12, Some ''Florida''), (row1, Some ''Alabama'')]"
             and fact_df = tie_fact and result = "[(row12, Some ''Florida''), (row1, Some ''Alabama'')]"
             and t = row12 and lab = "Some ''Florida''"
             and educ_dim = educ_dim6 and result' = "[(row6, Some ''Grade 12'')]"
             and t' = row6 and lab' = "Some ''Grade 12''"]
        merge_keeps_every_statistics_row
          [where key = dimension_value and stats = "[access1, access7]" and dt = "frame_rows sample_frame"
             and s = access1 and l = "''Alabama''" and stats_df = "[access1, access7]"
             and dim_table = sample_frame and dim_name = "''AGE_BUCKET''"]
        sample_merge_eval merge_and_sort_tie_eval tie_state_eval tie_educ_eval upper_statefip
  by (simp add: merge_left_def sample_defs)





section \<open>Dimension tables\<close>

lemma parse_code_samples:
  "parse_code ''1'' = Num 1" "parse_code ''2'' = Num 2" "parse_code ''01'' = Num 1"
  "parse_code ''B'' = Sym ''B''"
  by code_simp+

lemma str_int_3: "str_int 3 = ''3''"
  by code_simp

lemma scenario2_eval:
  "create_dimension_table desc [(''1'', ''Yes''), (''2'', ''No'')] [1, 2, 3] =
     Inr [\<lparr> entry_code = Num 1, entry_value = ''Yes'', entry_desc = desc \<rparr>,
          \<lparr> entry_code = Num 2, entry_value = ''No'', entry_desc = desc \<rparr>,
          \<lparr> entry_code = Num 3, entry_value = ''Undefined code: 3'', entry_desc = desc \<rparr>]"
  by (simp add: create_dimension_table_def declared_entries_def missing_values_def undefined_entry_def
      sort_values_code_def is_num_def num_of_def parse_code_samples str_int_3)

lemma duplicate_eval:
  "create_dimension_table desc [(''1'', ''Yes''), (''01'', ''Yes'')] [1] =
     Inr [\<lparr> entry_code = Num 1, entry_value = ''Yes'', entry_desc = desc \<rparr>,
          \<lparr> entry_code = Num 1, entry_value = ''Yes'', entry_desc = desc \<rparr>]"
  by (simp add: create_dimension_table_def declared_entries_def missing_values_def undefined_entry_def
      sort_values_code_def is_num_def num_of_def parse_code_samples)

lemma mixed_eval:
  "create_dimension_table desc [(''1'', ''Yes''), (''B'', ''Other'')] [1] = Inl TypeError"
  by (simp add: create_dimension_table_def declared_entries_def missing_values_def undefined_entry_def
      sort_values_code_def is_num_def num_of_def parse_code_samples)

lemma sort_values_code_Inr:
  assumes "sort_values_code xs = Inr tbl"
  shows "set tbl = set xs \<and> (distinct (map entry_code tbl) \<longleftrightarrow> distinct (map entry_code xs))"
proof -
  from assms obtain f :: "dim_entry \<Rightarrow> int" and g :: "dim_entry \<Rightarrow> string"
    where "tbl = sort_key f xs \<or> tbl = sort_key g xs"
    by (auto simp: sort_values_code_def split: if_splits)
  then show ?thesis
    by (auto simp: distinct_map)
qed

lemma set_missing_values:
  "set (missing_values dim_data fact_column) =
     {v \<in> set fact_column. \<forall>e \<in> set dim_data. entry_code e \<noteq> Num v}"
  by (auto simp: missing_values_def image_iff)

lemma distinct_missing_values: "distinct (missing_values dim_data fact_column)"
  by (simp add: missing_values_def)

lemma codes_declared_entries:
  "map entry_code (declared_entries desc codes) = map (\<lambda>p. parse_code (fst p)) codes"
  by (simp add: declared_entries_def case_prod_unfold)

lemma codes_undefined_entries:
  "map entry_code (map (undefined_entry desc) vs) = map Num vs"
  by (simp add: undefined_entry_def)

lemma table_codes_set:
  assumes "create_dimension_table desc codes fact_column = Inr tbl"
  shows "set (map entry_code tbl) = (\<lambda>p. parse_code (fst p)) ` set codes \<union> Num ` set fact_column"
proof -
  let ?d = "declared_entries desc codes"
  let ?xs = "?d @ map (undefined_entry desc) (missing_values ?d fact_column)"
  from assms have s: "sort_values_code ?xs = Inr tbl"
    by (auto simp: create_dimension_table_def Let_def split: if_splits)
  then have "set tbl = set ?xs" using sort_values_code_Inr by blast
  then have "entry_code ` set tbl = entry_code ` set ?xs" by (rule arg_cong)
  then have "set (map entry_code tbl) = set (map entry_code ?xs)" by (simp only: set_map)
  also have "\<dots> = set (map (\<lambda>p. parse_code (fst p)) codes) \<union> set (map Num (missing_values ?d fact_column))"
    by (simp only: map_append set_append codes_declared_entries codes_undefined_entries)
  also have "\<dots> = (\<lambda>p. parse_code (fst p)) ` set codes \<union> Num ` set fact_column"
  proof -
    let ?P = "(\<lambda>p. parse_code (fst p)) ` set codes"
    let ?M = "set (missing_values ?d fact_column)"
    have d: "entry_code ` set ?d = ?P"
      using codes_declared_entries[of desc codes] by (metis list.set_map)
    have sub: "?M \<subseteq> set fact_column"
      by (auto simp: set_missing_values)
    have "Num v \<in> ?P \<union> Num ` ?M" if v: "v \<in> set fact_column" for v
    proof (cases "\<exists>e \<in> set ?d. entry_code e = Num v")
      case True
      then have "Num v \<in> entry_code ` set ?d" by force
      with d show ?thesis by simp
    next
      case False
      with v have "v \<in> ?M" by (simp add: set_missing_values)
      then show ?thesis by simp
    qed
    then have "?P \<union> Num ` ?M = ?P \<union> Num ` set fact_column"
      using sub by blast
    then show ?thesis by (simp only: set_map)
  qed
  finally show ?thesis .
qed

lemma table_codes_distinct:
  assumes "create_dimension_table desc codes fact_column = Inr tbl"
    and "distinct (map (\<lambda>p. parse_code (fst p)) codes)"
  shows "distinct (map entry_code tbl)"
proof -
  let ?d = "declared_entries desc codes"
  let ?m = "missing_values ?d fact_column"
  let ?xs = "?d @ map (undefined_entry desc) ?m"
  from assms(1) have s: "sort_values_code ?xs = Inr tbl"
    by (auto simp: create_dimension_table_def Let_def split: if_splits)
  have "distinct (map Num ?m)"
    by (simp add: distinct_map distinct_missing_values inj_on_def)
  moreover have "set (map entry_code ?d) \<inter> set (map Num ?m) = {}"
  proof -
    have "entry_code e \<noteq> Num v" if "v \<in> set ?m" and "e \<in> set ?d" for v e
      using that by (auto simp: set_missing_values)
    then have "entry_code ` set ?d \<inter> Num ` set ?m = {}" by auto
    then show ?thesis by (simp only: set_map)
  qed
  moreover have "distinct (map entry_code ?d)"
    using assms(2) by (simp only: codes_declared_entries)
  ultimately have "distinct (map entry_code ?d @ map Num ?m)"
    by (simp only: distinct_append simp_thms)
  then have "distinct (map entry_code ?xs)"
    by (simp only: map_append codes_undefined_entries)
  with s show ?thesis using sort_values_code_Inr by blast
qed

lemma table_built_when_numeric:
  assumes "codes \<noteq> []" and "list_all (\<lambda>p. py_int (fst p) \<noteq> None) codes"
  shows "\<exists>tbl. create_dimension_table desc codes fact_column = Inr tbl"
proof -
  let ?d = "declared_entries desc codes"
  from assms(2) have "list_all (\<lambda>e. is_num (entry_code e)) ?d"
    by (auto simp: list_all_iff declared_entries_def parse_code_def is_num_def split: option.splits)
  moreover have "list_all (\<lambda>e. is_num (entry_code e)) (map (undefined_entry desc) (missing_values ?d fact_column))"
    by (simp add: list_all_iff undefined_entry_def is_num_def)
  moreover from assms(1) have "?d \<noteq> []" by (simp add: declared_entries_def)
  ultimately show ?thesis
    by (simp add: create_dimension_table_def Let_def sort_values_code_def)
qed

lemma numeric_table_sorted:
  assumes "create_dimension_table desc codes fact_column = Inr tbl"
    and "list_all (\<lambda>p. py_int (fst p) \<noteq> None) codes"
  shows "sorted (map (\<lambda>e. num_of (entry_code e)) tbl) \<and> list_all (\<lambda>e. is_num (entry_code e)) tbl"
proof -
  let ?d = "declared_entries desc codes"
  let ?xs = "?d @ map (undefined_entry desc) (missing_values ?d fact_column)"
  from assms(2) have "list_all (\<lambda>e. is_num (entry_code e)) ?d"
    by (auto simp: list_all_iff declared_entries_def parse_code_def is_num_def split: option.splits)
  moreover have "list_all (\<lambda>e. is_num (entry_code e)) (map (undefined_entry desc) (missing_values ?d fact_column))"
    by (simp add: list_all_iff undefined_entry_def is_num_def)
  ultimately have n: "list_all (\<lambda>e. is_num (entry_code e)) ?xs" by simp
  from assms(1) have "sort_values_code ?xs = Inr tbl"
    by (auto simp: create_dimension_table_def Let_def split: if_splits)
  with n have "tbl = sort_key (\<lambda>e. num_of (entry_code e)) ?xs"
    by (simp add: sort_values_code_def)
  with n show ?thesis by (simp add: list_all_iff)
qed

lemma py_int_samples: "py_int ''1'' = Some 1" "py_int ''2'' = Some 2"
  by code_simp+

text \<open>Every table that the loop returns is the table of the loop body for its variable.\<close>

lemma build_tables_entry:
  "build_tables ipums_vars cols = Inr tables \<Longrightarrow> (v, t) \<in> set tables \<Longrightarrow>
     \<exists>desc codes fact_column. ipums_vars v = Some (desc, codes) \<and> (v, fact_column) \<in> set cols \<and>
       create_dimension_table desc codes fact_column = Inr t"
proof (induction cols arbitrary: tables)
  case Nil
  then show ?case by simp
next
  case (Cons c cols)
  obtain var_name fact_column where c: "c = (var_name, fact_column)" by (cases c)
  show ?case
  proof (cases "ipums_vars var_name")
    case None
    with Cons.prems c have "build_tables ipums_vars cols = Inr tables" by simp
    from Cons.IH [OF this Cons.prems(2)] show ?thesis by auto
  next
    case (Some d)
    obtain desc codes where d: "d = (desc, codes)" by (cases d)
    from Cons.prems(1) c Some d obtain dim_df rest where
      r: "create_dimension_table desc codes fact_column = Inr dim_df"
         "build_tables ipums_vars cols = Inr rest" "tables = (var_name, dim_df) # rest"
      by (auto split: sum.splits)
    from Cons.prems(2) r(3) consider "(v, t) = (var_name, dim_df)" | "(v, t) \<in> set rest" by auto
    then show ?thesis
    proof cases
      case 1
      with r(1) Some d c show ?thesis by auto
    next
      case 2
      from Cons.IH [OF r(2) 2] show ?thesis by auto
    qed
  qed
qed

lemma create_dimension_tables_entry:
  assumes "create_dimension_tables ipums_vars fact_df = Inr tables" and "(v, t) \<in> set tables"
  shows "\<exists>desc codes fact_column. ipums_vars v = Some (desc, codes) \<and> (v, fact_column) \<in> set fact_df \<and>
       v \<notin> set MEASURE_VARS \<and> v \<notin> set EXCLUDE_VARS \<and>
       create_dimension_table desc codes fact_column = Inr t"
proof -
  from build_tables_entry [OF assms [unfolded create_dimension_tables_def]]
  show ?thesis by auto
qed

text \<open>
  C1, as stated, fails: the keys \<open>1\<close> and \<open>01\<close> are two keys of the codebook, both are read as
  the code 1, and the table holds the code 1 twice.
\<close>

theorem duplicate_code_twice:
  "create_dimension_table ''Response'' padded_codes [1] =
     Inr [\<lparr> entry_code = Num 1, entry_value = ''Yes'', entry_desc = ''Response'' \<rparr>,
          \<lparr> entry_code = Num 1, entry_value = ''Yes'', entry_desc = ''Response'' \<rparr>] \<and>
   distinct (map fst padded_codes)"
  using duplicate_eval [of "''Response''"] by (simp add: padded_codes_def)

text \<open>
  C1, amended. Whenever a table is built, its codes are exactly the declared codes, as
  \<open>int\<close> reads them, together with the codes observed in the fact column; when the declared
  keys are read as pairwise distinct codes, every code appears exactly once. A table is
  built whenever at least one code is declared and every declared key is an integer. With
  the declared codes 1 (Yes) and 2 (No) and the observed values 1, 2, 3 the table has three
  entries, the third with code 3 and label \<open>Undefined code: 3\<close>.
\<close>

theorem dimension_table_codes:
  "(create_dimension_table desc codes fact_column = Inr tbl \<longrightarrow>
      set (map entry_code tbl) = (\<lambda>p. parse_code (fst p)) ` set codes \<union> Num ` set fact_column) \<and>
   (create_dimension_table desc codes fact_column = Inr tbl \<and>
      distinct (map (\<lambda>p. parse_code (fst p)) codes) \<longrightarrow> distinct (map entry_code tbl)) \<and>
   (codes \<noteq> [] \<and> list_all (\<lambda>p. py_int (fst p) \<noteq> None) codes \<longrightarrow>
      (\<exists>t. create_dimension_table desc codes fact_column = Inr t)) \<and>
   create_dimension_table desc [(''1'', ''Yes''), (''2'', ''No'')] [1, 2, 3] =
     Inr [\<lparr> entry_code = Num 1, entry_value = ''Yes'', entry_desc = desc \<rparr>,
          \<lparr> entry_code = Num 2, entry_value = ''No'', entry_desc = desc \<rparr>,
          \<lparr> entry_code = Num 3, entry_value = ''Undefined code: 3'', entry_desc = desc \<rparr>]"
proof -
  have a: "create_dimension_table desc codes fact_column = Inr tbl \<longrightarrow>
      set (map entry_code tbl) = (\<lambda>p. parse_code (fst p)) ` set codes \<union> Num ` set fact_column"
    using table_codes_set by blast
  have b: "create_dimension_table desc codes fact_column = Inr tbl \<and>
      distinct (map (\<lambda>p. parse_code (fst p)) codes) \<longrightarrow> distinct (map entry_code tbl)"
    using table_codes_distinct by blast
  have c: "codes \<noteq> [] \<and> list_all (\<lambda>p. py_int (fst p) \<noteq> None) codes \<longrightarrow>
      (\<exists>t. create_dimension_table desc codes fact_column = Inr t)"
    using table_built_when_numeric by blast
  show ?thesis
    by (intro conjI a b c scenario2_eval)
qed

text \<open>C1 (amended) on the codebook with the codes 1 and 2 and the column 1, 2, 3.\<close>

theorem dimension_table_codes_witness:
  "create_dimension_table ''Response'' yes_no_codes [1, 2, 3] = Inr yes_no_table \<and>
   distinct (map (\<lambda>p. parse_code (fst p)) yes_no_codes) \<and>
   yes_no_codes \<noteq> [] \<and> list_all (\<lambda>p. py_int (fst p) \<noteq> None) yes_no_codes \<and>
   set (map entry_code yes_no_table) = {Num 1, Num 2, Num 3} \<and>
   distinct (map entry_code yes_no_table)"
  using dimension_table_codes [of "''Response''" yes_no_codes "[1, 2, 3]" yes_no_table]
  by (auto simp add: yes_no_codes_def yes_no_table_def parse_code_samples py_int_samples)

text \<open>
  C6. A codebook that declares the numeric code \<open>1\<close> and the symbolic code \<open>B\<close>: the sort of
  the table raises \<open>TypeError\<close>, and no table is produced.
\<close>

theorem mixed_codes_raise:
  "create_dimension_table ''Response'' mixed_codes [1] = Inl TypeError"
  using mixed_eval [of "''Response''"] by (simp add: mixed_codes_def)


section \<open>Bucket labels\<close>

lemma age_buckets_eq:
  "age_buckets ages = Inr (map (cut_label False (map Fin age_bins) age_labels) ages)"
  by (simp add: age_buckets_def pd_cut_def bins_to_cuts_def age_bins_def age_labels_def Let_def)

lemma age_label_ranges:
  "0 < a \<and> a \<le> 18 \<Longrightarrow> cut_label False (map Fin age_bins) age_labels a = Some ''0-18''"
  "18 < a \<and> a \<le> 25 \<Longrightarrow> cut_label False (map Fin age_bins) age_labels a = Some ''19-25''"
  "25 < a \<and> a \<le> 35 \<Longrightarrow> cut_label False (map Fin age_bins) age_labels a = Some ''26-35''"
  "35 < a \<and> a \<le> 50 \<Longrightarrow> cut_label False (map Fin age_bins) age_labels a = Some ''36-50''"
  "50 < a \<and> a \<le> 65 \<Longrightarrow> cut_label False (map Fin age_bins) age_labels a = Some ''51-65''"
  "65 < a \<and> a \<le> 100 \<Longrightarrow> cut_label False (map Fin age_bins) age_labels a = Some ''65+''"
  "a < 0 \<or> 100 < a \<Longrightarrow> cut_label False (map Fin age_bins) age_labels a = None"
  by (auto simp add: cut_label_def age_bins_def age_labels_def)

lemma band_label_unknown:
  "list_all (\<lambda>b. \<not> (fst b \<le> x \<and> x \<le> fst (snd b))) groups \<Longrightarrow> band_label groups x = ''Unknown''"
  by (induction groups x rule: band_label.induct) auto

lemma band_label_first:
  "list_all (\<lambda>b. \<not> (fst b \<le> x \<and> x \<le> fst (snd b))) pre \<Longrightarrow> lo \<le> x \<Longrightarrow> x \<le> hi \<Longrightarrow>
     band_label (pre @ (lo, hi, lab) # post) x = lab"
  by (induction pre) auto

lemma create_income_groups_rows:
  "create_income_groups (Some column) =
     Some (map (\<lambda>income. (income, band_label income_groups income)) (sort (remdups column)))"
  by (simp add: create_income_groups_def)

lemma scenario_ages_eval: "age_buckets scenario_ages = Inr scenario_labels"
  by code_simp

lemma scenario_bands_eval:
  "map (band_label scenario_bands) scenario_ages =
     [''Unknown'', ''0-18'', ''0-18'', ''19-25'', ''65+'', ''Unknown'']"
  by code_simp

text \<open>
  C4, as stated, fails on the ages of the scenario: the age cut gives no label to -5, to 0
  and to 999, where the claim expects \<open>0-18\<close>, \<open>0-18\<close> and \<open>Unknown\<close>; and the loop over
  inclusive bands, run on the bands of the scenario, gives \<open>Unknown\<close> to -5, not \<open>0-18\<close>.
\<close>

theorem age_scenario_not_as_claimed:
  "age_buckets scenario_ages = Inr [None, None, Some ''0-18'', Some ''19-25'', Some ''65+'', None] \<and>
   age_buckets scenario_ages \<noteq>
     Inr [Some ''0-18'', Some ''0-18'', Some ''0-18'', Some ''19-25'', Some ''65+'', Some ''Unknown''] \<and>
   map (band_label scenario_bands) scenario_ages \<noteq>
     [''0-18'', ''0-18'', ''0-18'', ''19-25'', ''65+'', ''Unknown'']"
  using scenario_ages_eval scenario_bands_eval by (simp add: scenario_labels_def)

text \<open>
  C4, amended. The age cut never raises and returns one entry per age: an age above 0 and up
  to 100 gets the label of its right-closed interval (18 is in \<open>0-18\<close>, 19 in \<open>19-25\<close>, 100 in
  \<open>65+\<close>), an age below 0 or above 100 gets the missing value; nothing is said about the age
  0. The loop over inclusive bands gives every value exactly one label: the label of the
  first band that contains it, and \<open>Unknown\<close> when no band does; \<open>create_income_groups\<close>
  returns one row per distinct income with that label. Neither bucketizer clamps its input.
\<close>

theorem bucketizers_never_raise:
  "(\<exists>ls. age_buckets ages = Inr ls \<and> length ls = length ages) \<and>
   (age_buckets ages = Inr ls \<and> i < length ages \<longrightarrow>
      (0 < ages ! i \<and> ages ! i \<le> 18 \<longrightarrow> ls ! i = Some ''0-18'') \<and>
      (18 < ages ! i \<and> ages ! i \<le> 25 \<longrightarrow> ls ! i = Some ''19-25'') \<and>
      (25 < ages ! i \<and> ages ! i \<le> 35 \<longrightarrow> ls ! i = Some ''26-35'') \<and>
      (35 < ages ! i \<and> ages ! i \<le> 50 \<longrightarrow> ls ! i = Some ''36-50'') \<and>
      (50 < ages ! i \<and> ages ! i \<le> 65 \<longrightarrow> ls ! i = Some ''51-65'') \<and>
      (65 < ages ! i \<and> ages ! i \<le> 100 \<longrightarrow> ls ! i = Some ''65+'') \<and>
      (ages ! i < 0 \<or> 100 < ages ! i \<longrightarrow> ls ! i = None)) \<and>
   (list_all (\<lambda>b. \<not> (fst b \<le> x \<and> x \<le> fst (snd b))) groups \<longrightarrow> band_label groups x = ''Unknown'') \<and>
   (list_all (\<lambda>b. \<not> (fst b \<le> x \<and> x \<le> fst (snd b))) pre \<and> lo \<le> x \<and> x \<le> hi \<longrightarrow>
      band_label (pre @ (lo, hi, lab) # post) x = lab) \<and>
   (\<exists>rows. create_income_groups (Some column) = Some rows \<and>
      map fst rows = sort (remdups column) \<and>
      map snd rows = map (band_label income_groups) (sort (remdups column)))"
proof -
  have a: "\<exists>ls. age_buckets ages = Inr ls \<and> length ls = length ages"
    by (simp add: age_buckets_eq)
  have b: "age_buckets ages = Inr ls \<and> i < length ages \<longrightarrow>
      (0 < ages ! i \<and> ages ! i \<le> 18 \<longrightarrow> ls ! i = Some ''0-18'') \<and>
      (18 < ages ! i \<and> ages ! i \<le> 25 \<longrightarrow> ls ! i = Some ''19-25'') \<and>
      (25 < ages ! i \<and> ages ! i \<le> 35 \<longrightarrow> ls ! i = Some ''26-35'') \<and>
      (35 < ages ! i \<and> ages ! i \<le> 50 \<longrightarrow> ls ! i = Some ''36-50'') \<and>
      (50 < ages ! i \<and> ages ! i \<le> 65 \<longrightarrow> ls ! i = Some ''51-65'') \<and>
      (65 < ages ! i \<and> ages ! i \<le> 100 \<longrightarrow> ls ! i = Some ''65+'') \<and>
      (ages ! i < 0 \<or> 100 < ages ! i \<longrightarrow> ls ! i = None)"
  proof
    assume h: "age_buckets ages = Inr ls \<and> i < length ages"
    then have "ls ! i = cut_label False (map Fin age_bins) age_labels (ages ! i)"
      by (auto simp: age_buckets_eq)
    then show "(0 < ages ! i \<and> ages ! i \<le> 18 \<longrightarrow> ls ! i = Some ''0-18'') \<and>
      (18 < ages ! i \<and> ages ! i \<le> 25 \<longrightarrow> ls ! i = Some ''19-25'') \<and>
      (25 < ages ! i \<and> ages ! i \<le> 35 \<longrightarrow> ls ! i = Some ''26-35'') \<and>
      (35 < ages ! i \<and> ages ! i \<le> 50 \<longrightarrow> ls ! i = Some ''36-50'') \<and>
      (50 < ages ! i \<and> ages ! i \<le> 65 \<longrightarrow> ls ! i = Some ''51-65'') \<and>
      (65 < ages ! i \<and> ages ! i \<le> 100 \<longrightarrow> ls ! i = Some ''65+'') \<and>
      (ages ! i < 0 \<or> 100 < ages ! i \<longrightarrow> ls ! i = None)"
      using age_label_ranges [of "ages ! i"] by presburger
  qed
  have c: "list_all (\<lambda>b. \<not> (fst b \<le> x \<and> x \<le> fst (snd b))) groups \<longrightarrow> band_label groups x = ''Unknown''"
    using band_label_unknown by blast
  have d: "list_all (\<lambda>b. \<not> (fst b \<le> x \<and> x \<le> fst (snd b))) pre \<and> lo \<le> x \<and> x \<le> hi \<longrightarrow>
      band_label (pre @ (lo, hi, lab) # post) x = lab"
    using band_label_first by blast
  have e: "\<exists>rows. create_income_groups (Some column) = Some rows \<and>
      map fst rows = sort (remdups column) \<and>
      map snd rows = map (band_label income_groups) (sort (remdups column))"
    by (simp add: create_income_groups_rows comp_def)
  show ?thesis by (intro conjI a b c d e)
qed

text \<open>C4 (amended) on the ages of the scenario and on the incomes 5000 and 20000000.\<close>

theorem bucketizers_never_raise_witness:
  "age_buckets scenario_ages = Inr scenario_labels \<and> 3 < length scenario_ages \<and>
   18 < scenario_ages ! 3 \<and> scenario_ages ! 3 \<le> 25 \<and> scenario_labels ! 3 = Some ''19-25'' \<and>
   100 < scenario_ages ! 5 \<and> scenario_labels ! 5 = None \<and>
   scenario_ages ! 0 < 0 \<and> scenario_labels ! 0 = None \<and>
   scenario_labels ! 2 = Some ''0-18'' \<and> scenario_labels ! 4 = Some ''65+'' \<and>
   list_all (\<lambda>b. \<not> (fst b \<le> 20000000 \<and> 20000000 \<le> fst (snd b))) income_groups \<and>
   band_label income_groups 20000000 = ''Unknown'' \<and>
   list_all (\<lambda>b. \<not> (fst b \<le> 5000 \<and> 5000 \<le> fst (snd b))) (take 1 income_groups) \<and>
   band_label (take 1 income_groups @ (1, 9999, ''Under $10,000'') # drop 2 income_groups) 5000 = ''Under $10,000''"
  using bucketizers_never_raise [where ages = scenario_ages and ls = scenario_labels and i = 3
          and x = 20000000 and groups = income_groups]
        bucketizers_never_raise [where ages = scenario_ages and ls = scenario_labels and i = 5
          and x = 5000 and pre = "take 1 income_groups" and lo = 1 and hi = 9999
          and lab = "''Under $10,000''" and post = "drop 2 income_groups"]
        bucketizers_never_raise [where ages = scenario_ages and ls = scenario_labels and i = 0]
        bucketizers_never_raise [where ages = scenario_ages and ls = scenario_labels and i = 2]
        bucketizers_never_raise [where ages = scenario_ages and ls = scenario_labels and i = 4]
        scenario_ages_eval
  by (simp add: scenario_ages_def scenario_labels_def income_groups_def)

subsection \<open>Income buckets\<close>

lemma no_positive_income:
  assumes "list_all (\<lambda>x. x \<le> 0) income_data0"
  shows "create_income_buckets flag income_data0 = Inr (map (\<lambda>x. Some ''No Income'') income_data0)"
proof -
  from assms have "filter (\<lambda>x. x > 0) (map (\<lambda>x. max x 0) income_data0) = []"
    by (auto simp: filter_empty_conv list_all_iff)
  then show ?thesis
    by (simp add: create_income_buckets_def quantile_attempt_def Let_def)
qed

lemma qcut_distinct_edges:
  assumes "pd_qcut xs n_quantiles quantile_labels = Inr buckets"
  shows "distinct (map (\<lambda>k. quantile_linear (sort xs) (of_nat k / of_nat n_quantiles)) [0..<n_quantiles + 1])"
proof -
  let ?bins = "map (\<lambda>k. Fin (quantile_linear (sort xs) (of_nat k / of_nat n_quantiles))) [0..<n_quantiles + 1]"
  have len: "length ?bins = 8" by (simp add: n_quantiles_def)
  have "length (remdups ?bins) = length ?bins"
  proof (rule ccontr)
    assume "length (remdups ?bins) \<noteq> length ?bins"
    then have lt: "length (remdups ?bins) < 8"
      using length_remdups_leq [of ?bins] len by linarith
    then have "bins_to_cuts True True ?bins quantile_labels xs = Inl ValueError"
      unfolding bins_to_cuts_def Let_def len by (simp add: quantile_labels_def)
    with assms show False by (simp add: pd_qcut_def Let_def)
  qed
  then have "remdups ?bins = ?bins" by (simp only: length_remdups_eq)
  then have "distinct ?bins" by (simp only: remdups_id_iff_distinct)
  then have "distinct (map Fin (map (\<lambda>k. quantile_linear (sort xs) (of_nat k / of_nat n_quantiles)) [0..<n_quantiles + 1]))"
    by (simp only: map_map comp_def)
  then show ?thesis by (simp only: distinct_map)
qed

lemma qcut_failure_uses_fallback:
  assumes "pd_qcut (filter (\<lambda>x. x > 0) (map (\<lambda>x. max x 0) income_data0)) n_quantiles quantile_labels = Inl e"
    and "filter (\<lambda>x. x > 0) (map (\<lambda>x. max x 0) income_data0) \<noteq> []"
  shows "create_income_buckets flag income_data0 = pd_cut (map (\<lambda>x. max x 0) income_data0) fallback_bins fallback_labels"
  using assms by (simp add: create_income_buckets_def quantile_attempt_def Let_def)

text \<open>
  C5. On \<open>clustered_incomes\<close> two quantile edges coincide: \<open>pd.qcut\<close> drops the duplicate edge,
  finds seven labels for six bins and raises \<open>ValueError\<close>, and every row gets the label of
  its fallback band, whether or not the masked assignments into the categorical series
  would raise.
\<close>

theorem duplicate_quantile_edges_fall_back:
  "pd_qcut clustered_incomes n_quantiles quantile_labels = Inl ValueError \<and>
   create_income_buckets True clustered_incomes = Inr clustered_fallback \<and>
   create_income_buckets False clustered_incomes = Inr clustered_fallback"
  by code_simp


end
